theory Spec2Isabelle
  imports Complex_Main
begin

section \<open>Optimal power and bandwidth allocation in a Gaussian channel\<close>

text \<open>
  A shallow embedding of the function \<open>optimal_power\<close> of the notebook
  \<^verbatim>\<open>examples/notebooks/WWW/optimal_power_gaussian_channel_BV4.62.ipynb\<close>.
  The function checks the lengths of its two coefficient vectors, builds a symbolic
  minimisation problem from library atoms, hands it to the library's solver and returns
  what the solver reports.
\<close>

subsection \<open>Python values\<close>

text \<open>
  A Python float is a real number, one of the two infinities, or NaN (\<open>np.nan\<close>).
  Unary minus exchanges the infinities and leaves NaN alone.
\<close>

datatype pyfloat = Finite real | PosInf | NegInf | NaN

fun neg :: "pyfloat \<Rightarrow> pyfloat" where
  "neg (Finite r) = Finite (- r)"
| "neg PosInf = NegInf"
| "neg NegInf = PosInf"
| "neg NaN = NaN"

text \<open>
  The values the function returns beside the status string: a scalar float, a
  one-dimensional array of floats, or \<open>None\<close> (the \<open>value\<close> of a variable the solver
  did not assign).
\<close>

datatype pyval = NoneV | FloatV pyfloat | ArrayV "pyfloat list"

subsection \<open>Symbolic expressions, constraints and problems\<close>

text \<open>
  The expression trees the source builds from the library's atoms. A leaf object is
  identified by the Python name the source binds it to; it carries its shape, and a
  parameter carries the value assigned to it, if any (\<open>alpha.value = ...\<close>).
\<close>

datatype expr =
    Variable string nat
  | Parameter string nat "real list option"
  | Const real
  | Add expr expr
  | Sub expr expr
  | Multiply expr expr
  | Kl_div expr expr
  | Sum expr

datatype constr = Geq expr expr | Equals expr expr

datatype objective = Minimize expr

record problem =
  objective :: objective
  constraints :: "constr list"

text \<open>Assignment to the \<open>value\<close> attribute of a parameter; other objects are left alone.\<close>

fun set_value :: "expr \<Rightarrow> real list \<Rightarrow> expr" where
  "set_value (Parameter x n _) v = Parameter x n (Some v)"
| "set_value e _ = e"

subsection \<open>The solver, as the function sees it\<close>

text \<open>
  Modelled from the spec: the \<open>solve\<close> operation of the modelling library, which is
  not part of the notebook. The spec describes it as an operation "returning a status and
  optimal values"; it is a parameter of the model. A report holds the status string
  (\<open>prob.status\<close>), the optimal objective value (\<open>prob.value\<close>) and the value the
  solver leaves in each variable object (\<open>P.value\<close>, \<open>W.value\<close>), looked up by the
  variable's name.
\<close>

record report =
  status :: string
  opt_value :: pyfloat
  var_value :: "string \<Rightarrow> pyval"

type_synonym solver = "problem \<Rightarrow> report"

subsection \<open>Effects\<close>

text \<open>
  What a call does beside returning: the lines it prints, the library objects it
  creates, and the problems it asks the solver to solve, in program order. The library's
  constructors and its solver are taken to return normally: what they may raise is
  decided outside the notebook.
\<close>

datatype event =
    Printed string
  | Created expr
  | Built problem
  | Solved problem

fun is_print :: "event \<Rightarrow> bool" where
  "is_print (Printed _) = True"
| "is_print _ = False"

fun is_solve :: "event \<Rightarrow> bool" where
  "is_solve (Solved _) = True"
| "is_solve _ = False"

subsection \<open>The function\<close>

text \<open>
  Lines 63 to 83 of the notebook: the two variables, the two parameters with their values,
  the expression \<open>R\<close>, the objective and the list of constraints.
\<close>

definition rate_expr :: "nat \<Rightarrow> real list \<Rightarrow> real list \<Rightarrow> expr" where
  "rate_expr n a_val b_val =
    (let P = Variable ''P'' n;
         W = Variable ''W'' n;
         alpha = set_value (Parameter ''alpha'' n None) a_val;
         beta = set_value (Parameter ''beta'' n None) b_val
     in Sub (Kl_div (Multiply alpha W)
                    (Multiply alpha (Add W (Multiply beta P))))
            (Multiply alpha (Multiply beta P)))"

definition formulate :: "nat \<Rightarrow> real list \<Rightarrow> real list \<Rightarrow> real \<Rightarrow> real \<Rightarrow> problem" where
  "formulate n a_val b_val P_tot W_tot =
    (let P = Variable ''P'' n;
         W = Variable ''W'' n;
         R = rate_expr n a_val b_val
     in \<lparr> objective = Minimize (Sum R),
          constraints = [Geq P (Const 0.0),
                         Geq W (Const 0.0),
                         Equals (Sub (Sum P) (Const P_tot)) (Const 0.0),
                         Equals (Sub (Sum W) (Const W_tot)) (Const 0.0)] \<rparr>)"

definition failure_message :: string where
  "failure_message = ''alpha and beta vectors must have same length!''"

type_synonym result = "string \<times> pyval \<times> pyval \<times> pyval"

text \<open>
  The body of \<open>optimal_power\<close> once its five parameters are bound. The argument \<open>n\<close>
  is rebound to \<open>len(a_val)\<close> in the first statement. The result is the list of effects
  and the returned tuple.
\<close>

definition optimal_power_body ::
  "solver \<Rightarrow> int \<Rightarrow> real list \<Rightarrow> real list \<Rightarrow> real \<Rightarrow> real \<Rightarrow> event list \<times> result" where
  "optimal_power_body solve n0 a_val b_val P_tot W_tot =
    (let n = length a_val in
     if n \<noteq> length b_val then
       ([Printed failure_message], (''failed'', FloatV NaN, FloatV NaN, FloatV NaN))
     else
       (let prob = formulate n a_val b_val P_tot W_tot;
            rep = solve prob
        in ([Created (Variable ''P'' n), Created (Variable ''W'' n),
             Created (Parameter ''alpha'' n None), Created (Parameter ''beta'' n None),
             Built prob, Solved prob],
            (status rep, FloatV (neg (opt_value rep)),
             var_value rep ''P'', var_value rep ''W''))))"

text \<open>
  The signature \<open>def optimal_power(n, a_val, b_val, P_tot=1.0, W_tot=1.0)\<close>: an
  argument the caller leaves out is \<open>None\<close> here and takes its default \<open>1.0\<close>.
\<close>

definition or_default :: "real option \<Rightarrow> real" where
  "or_default arg = (case arg of None \<Rightarrow> 1.0 | Some x \<Rightarrow> x)"

definition optimal_power ::
  "solver \<Rightarrow> int \<Rightarrow> real list \<Rightarrow> real list \<Rightarrow> real option \<Rightarrow> real option
     \<Rightarrow> event list \<times> result" where
  "optimal_power solve n a_val b_val P_tot W_tot =
     optimal_power_body solve n a_val b_val (or_default P_tot) (or_default W_tot)"

subsection \<open>What the expressions mean\<close>

text \<open>
  The rate law of a channel, as the notebook states it (base-2 logarithm):
  \<open>R_i = \<alpha>_i W_i log\<^sub>2 (1 + \<beta>_i P_i / W_i)\<close>.
\<close>

definition rate :: "real \<Rightarrow> real \<Rightarrow> real \<Rightarrow> real \<Rightarrow> real" where
  "rate \<alpha> \<beta> P W = \<alpha> * W * log 2 (1 + \<beta> * P / W)"

text \<open>
  Modelled from the spec: the library atom \<open>kl_div\<close>, which is not part of the
  notebook. The spec and the notebook's text give
  \<open>kl_div(x,y) = x log(x/y) - x + y\<close> with the natural logarithm.
\<close>

definition kl_div :: "real \<Rightarrow> real \<Rightarrow> real" where
  "kl_div x y = x * ln (x / y) - x + y"

text \<open>The value of the expression \<open>R\<close> of the source in one channel.\<close>

definition reformulated :: "real \<Rightarrow> real \<Rightarrow> real \<Rightarrow> real \<Rightarrow> real" where
  "reformulated \<alpha> \<beta> P W = kl_div (\<alpha> * W) (\<alpha> * (W + \<beta> * P)) - \<alpha> * (\<beta> * P)"

text \<open>
  Modelled from the spec: how the library reads an expression once the variables have
  values. The spec calls the constraints elementwise and the objective a sum over the
  channels. A value is a scalar or a vector; a binary atom works elementwise, a scalar
  operand is broadcast, and two vectors of different lengths have no value.
\<close>

datatype val = Sc real | Vec "real list"

fun lift2 :: "(real \<Rightarrow> real \<Rightarrow> real) \<Rightarrow> val \<Rightarrow> val \<Rightarrow> val option" where
  "lift2 f (Sc x) (Sc y) = Some (Sc (f x y))"
| "lift2 f (Sc x) (Vec ys) = Some (Vec (map (f x) ys))"
| "lift2 f (Vec xs) (Sc y) = Some (Vec (map (\<lambda>x. f x y) xs))"
| "lift2 f (Vec xs) (Vec ys) =
     (if length xs = length ys then Some (Vec (map2 f xs ys)) else None)"

definition binop ::
  "(real \<Rightarrow> real \<Rightarrow> real) \<Rightarrow> val option \<Rightarrow> val option \<Rightarrow> val option" where
  "binop f u v =
     (case u of None \<Rightarrow> None
      | Some x \<Rightarrow> (case v of None \<Rightarrow> None | Some y \<Rightarrow> lift2 f x y))"

fun eval :: "(string \<Rightarrow> real list) \<Rightarrow> expr \<Rightarrow> val option" where
  "eval env (Variable x n) = (if length (env x) = n then Some (Vec (env x)) else None)"
| "eval env (Parameter x n v) =
     (case v of None \<Rightarrow> None
      | Some xs \<Rightarrow> if length xs = n then Some (Vec xs) else None)"
| "eval env (Const c) = Some (Sc c)"
| "eval env (Add l r) = binop (+) (eval env l) (eval env r)"
| "eval env (Sub l r) = binop (-) (eval env l) (eval env r)"
| "eval env (Multiply l r) = binop (*) (eval env l) (eval env r)"
| "eval env (Kl_div l r) = binop kl_div (eval env l) (eval env r)"
| "eval env (Sum e) =
     (case eval env e of None \<Rightarrow> None
      | Some (Sc x) \<Rightarrow> Some (Sc x)
      | Some (Vec xs) \<Rightarrow> Some (Sc (sum_list xs)))"

fun all_val :: "(real \<Rightarrow> bool) \<Rightarrow> val \<Rightarrow> bool" where
  "all_val p (Sc x) = p x"
| "all_val p (Vec xs) = list_all p xs"

fun holds :: "(string \<Rightarrow> real list) \<Rightarrow> constr \<Rightarrow> bool" where
  "holds env (Geq l r) =
     (case eval env (Sub l r) of None \<Rightarrow> False | Some d \<Rightarrow> all_val (\<lambda>x. 0 \<le> x) d)"
| "holds env (Equals l r) =
     (case eval env (Sub l r) of None \<Rightarrow> False | Some d \<Rightarrow> all_val (\<lambda>x. x = 0) d)"

definition objective_value :: "(string \<Rightarrow> real list) \<Rightarrow> problem \<Rightarrow> val option" where
  "objective_value env prob = (case objective prob of Minimize e \<Rightarrow> eval env e)"

text \<open>A candidate allocation: the power vector for \<open>P\<close>, the bandwidth vector for \<open>W\<close>.\<close>

definition assignment :: "real list \<Rightarrow> real list \<Rightarrow> string \<Rightarrow> real list" where
  "assignment p w x = (if x = ''P'' then p else if x = ''W'' then w else [])"

subsection \<open>Reading the effects of a call\<close>

fun built :: "event list \<Rightarrow> problem list" where
  "built [] = []"
| "built (Built prob # es) = prob # built es"
| "built (_ # es) = built es"

fun shapes :: "expr \<Rightarrow> nat set" where
  "shapes (Variable _ n) = {n}"
| "shapes (Parameter _ n _) = {n}"
| "shapes (Const _) = {}"
| "shapes (Add l r) = shapes l \<union> shapes r"
| "shapes (Sub l r) = shapes l \<union> shapes r"
| "shapes (Multiply l r) = shapes l \<union> shapes r"
| "shapes (Kl_div l r) = shapes l \<union> shapes r"
| "shapes (Sum e) = shapes e"

fun constr_shapes :: "constr \<Rightarrow> nat set" where
  "constr_shapes (Geq l r) = shapes l \<union> shapes r"
| "constr_shapes (Equals l r) = shapes l \<union> shapes r"

definition problem_shapes :: "problem \<Rightarrow> nat set" where
  "problem_shapes prob =
     (case objective prob of Minimize e \<Rightarrow> shapes e) \<union>
     \<Union> (set (map constr_shapes (constraints prob)))"

fun is_scalar :: "pyval \<Rightarrow> bool" where
  "is_scalar (FloatV _) = True"
| "is_scalar _ = False"

text \<open>Two solvers used to run the model on concrete inputs.\<close>

definition stub_solver :: solver where
  "stub_solver prob =
     \<lparr> status = ''optimal'', opt_value = Finite (- 2),
       var_value = (\<lambda>x. if x = ''P'' then ArrayV [Finite 1] else ArrayV [Finite 3]) \<rparr>"

definition infeasible_solver :: solver where
  "infeasible_solver prob =
     \<lparr> status = ''infeasible'', opt_value = PosInf, var_value = (\<lambda>x. NoneV) \<rparr>"

subsection \<open>The worked example\<close>

text \<open>
  The driver cell of the notebook, lines 120 to 126: \<open>n = 5\<close>,
  \<open>a_val = b_val = np.arange(10, n+10)/(1.0*n)\<close>, \<open>P_tot = 0.5\<close>, \<open>W_tot = 1.0\<close>
  and the call \<open>optimal_power(n, a_val, b_val, P_tot, W_tot)\<close>.
\<close>

definition arange :: "nat \<Rightarrow> nat \<Rightarrow> real list" where
  "arange lo hi = map real [lo..<hi]"

definition example_n :: nat where
  "example_n = 5"

definition example_a_val :: "real list" where
  "example_a_val = map (\<lambda>x. x / (1.0 * real example_n)) (arange 10 (example_n + 10))"

definition example_b_val :: "real list" where
  "example_b_val = map (\<lambda>x. x / (1.0 * real example_n)) (arange 10 (example_n + 10))"


definition example_problem :: problem where
  "example_problem = formulate example_n example_a_val example_b_val 0.5 1.0"

subsection \<open>What the solver owes the function\<close>

text \<open>
  Modelled from the spec: the contract of the \<open>solve\<close> operation, which is not part
  of the notebook. The spec has the decision vectors "determined by the solve", the
  constraints met "at the optimum", and the status \<open>optimal\<close> reported for a problem
  that has an optimum. An allocation is feasible when it meets every constraint of the
  problem; it attains the value the objective takes there; it is an optimum when no
  feasible allocation attains a smaller value. A report reports an optimum when its
  status is \<open>optimal\<close> and its value and the values of \<open>P\<close> and \<open>W\<close> are those of
  an optimum. A solver is exact on a problem when it reports an optimum whenever the
  problem has one, and never says \<open>optimal\<close> otherwise.
\<close>

definition feasible :: "problem \<Rightarrow> real list \<Rightarrow> real list \<Rightarrow> bool" where
  "feasible prob p w = list_all (holds (assignment p w)) (constraints prob)"

definition attains :: "problem \<Rightarrow> real list \<Rightarrow> real list \<Rightarrow> real \<Rightarrow> bool" where
  "attains prob p w v \<longleftrightarrow>
     feasible prob p w \<and> objective_value (assignment p w) prob = Some (Sc v)"

definition optimum :: "problem \<Rightarrow> real list \<Rightarrow> real list \<Rightarrow> real \<Rightarrow> bool" where
  "optimum prob p w v \<longleftrightarrow>
     attains prob p w v \<and> (\<forall>p' w' v'. attains prob p' w' v' \<longrightarrow> v \<le> v')"

definition reports_optimum :: "report \<Rightarrow> problem \<Rightarrow> bool" where
  "reports_optimum rep prob \<longleftrightarrow>
     (\<exists>p w v. optimum prob p w v \<and> status rep = ''optimal'' \<and> opt_value rep = Finite v \<and>
        var_value rep ''P'' = ArrayV (map Finite p) \<and>
        var_value rep ''W'' = ArrayV (map Finite w))"

definition exact_on :: "solver \<Rightarrow> problem \<Rightarrow> bool" where
  "exact_on solve prob \<longleftrightarrow>
     ((\<exists>p w v. optimum prob p w v) \<or> status (solve prob) = ''optimal''
        \<longrightarrow> reports_optimum (solve prob) prob)"

text \<open>
  A solver for the worked example: it reports the allocation that gives all power and
  all bandwidth to the fifth channel.
\<close>

definition example_solver :: solver where
  "example_solver prob =
     \<lparr> status = ''optimal'', opt_value = Finite (- (14 / 5 * ln (12 / 5))),
       var_value = (\<lambda>x. if x = ''P'' then ArrayV (map Finite [0, 0, 0, 0, 1 / 2])
                         else ArrayV (map Finite [0, 0, 0, 0, 1])) \<rparr>"

text \<open>
  The slopes of the plane that touches the rate of the fifth channel at the allocation
  \<open>P = 1/2\<close>, \<open>W = 1\<close>.
\<close>

definition price_p :: real where
  "price_p = 49 / 15"

definition price_w :: real where
  "price_w = 14 / 5 * (ln (12 / 5) - 7 / 12)"


section \<open>Properties\<close>

subsection \<open>The two paths of the function\<close>

lemma optimal_power_mismatch:
  "length a_val \<noteq> length b_val \<Longrightarrow>
   optimal_power solve n a_val b_val P_tot W_tot =
     ([Printed failure_message], (''failed'', FloatV NaN, FloatV NaN, FloatV NaN))"
  by (simp add: optimal_power_def optimal_power_body_def)

lemma optimal_power_match:
  "length a_val = length b_val \<Longrightarrow>
   optimal_power solve n a_val b_val P_tot W_tot =
     (let m = length a_val;
          prob = formulate m a_val b_val (or_default P_tot) (or_default W_tot);
          rep = solve prob
      in ([Created (Variable ''P'' m), Created (Variable ''W'' m),
           Created (Parameter ''alpha'' m None), Created (Parameter ''beta'' m None),
           Built prob, Solved prob],
          (status rep, FloatV (neg (opt_value rep)),
           var_value rep ''P'', var_value rep ''W'')))"
  by (simp add: optimal_power_def optimal_power_body_def Let_def)

subsection \<open>The value of the constructed expressions\<close>

lemma rate_expr_eval:
  assumes "length b = length a" "length p = length a" "length w = length a"
  shows "eval (assignment p w) (rate_expr (length a) a b) =
     Some (Vec (map (\<lambda>i. reformulated (a ! i) (b ! i) (p ! i) (w ! i)) [0..<length a]))"
  using assms
  by (auto simp: rate_expr_def Let_def assignment_def binop_def reformulated_def
      intro!: nth_equalityI)

lemma sum_list_map_upt: "sum_list (map f [0..<k]) = (\<Sum>i<k. f i)"
  by (simp add: sum_list_sum_nth atLeast0LessThan)

lemma formulate_objective_value:
  assumes "length b = length a" "length p = length a" "length w = length a"
  shows "objective_value (assignment p w) (formulate (length a) a b Pt Wt) =
     Some (Sc (\<Sum>i<length a. reformulated (a ! i) (b ! i) (p ! i) (w ! i)))"
  using rate_expr_eval[OF assms]
  by (simp add: objective_value_def formulate_def Let_def sum_list_map_upt)

lemma formulate_constraints_hold:
  assumes "length p = m" "length w = m"
  shows "map (holds (assignment p w)) (constraints (formulate m a b Pt Wt)) =
     [\<forall>x\<in>set p. 0 \<le> x, \<forall>x\<in>set w. 0 \<le> x, sum_list p = Pt, sum_list w = Wt]"
  using assms
  by (simp add: formulate_def Let_def assignment_def binop_def list_all_iff)

lemma reformulated_ln:
  assumes "0 < \<alpha>" "0 < \<beta>" "0 < P" "0 < W"
  shows "reformulated \<alpha> \<beta> P W = - (\<alpha> * W * ln (1 + \<beta> * P / W))"
proof -
  have pos: "0 < W + \<beta> * P"
    using assms by (simp add: add_pos_pos)
  have "(\<alpha> * W) / (\<alpha> * (W + \<beta> * P)) = W / (W + \<beta> * P)"
    using assms by simp
  moreover have "ln (W / (W + \<beta> * P)) = - ln ((W + \<beta> * P) / W)"
    using assms pos by (simp add: ln_div)
  moreover have "(W + \<beta> * P) / W = 1 + \<beta> * P / W"
    using assms by (simp add: field_simps)
  ultimately show ?thesis
    by (simp add: reformulated_def kl_div_def algebra_simps)
qed

subsection \<open>Bounds on the logarithm of 12/5\<close>




subsection \<open>One channel against the touching plane\<close>

lemma reformulated_zero_bandwidth: "reformulated a b p 0 = 0"
  by (simp add: reformulated_def kl_div_def)


lemma reformulated_ln_nonneg:
  assumes "0 < a" "0 < b" "0 \<le> p" "0 < w"
  shows "reformulated a b p w = - (a * w * ln (1 + b * p / w))"
proof -
  have pos: "0 < w + b * p"
    using assms by (simp add: add_pos_nonneg)
  have "(a * w) / (a * (w + b * p)) = w / (w + b * p)"
    using assms by simp
  moreover have "ln (w / (w + b * p)) = - ln ((w + b * p) / w)"
    using assms pos by (simp add: ln_div)
  moreover have "(w + b * p) / w = 1 + b * p / w"
    using assms by (simp add: field_simps)
  ultimately show ?thesis
    by (simp add: reformulated_def kl_div_def algebra_simps)
qed


lemma ln_tangent:
  fixes t :: real
  assumes "0 \<le> t"
  shows "ln (1 + t) \<le> ln (12 / 5) + (t - 7 / 5) * (5 / 12)"
proof -
  have "ln ((1 + t) / (12 / 5)) \<le> (1 + t) / (12 / 5) - 1"
    using assms by (intro ln_le_minus_one) simp
  moreover have "ln ((1 + t) / (12 / 5)) = ln (1 + t) - ln (12 / 5)"
    using assms by (subst ln_div) simp_all
  ultimately show ?thesis by (simp add: field_simps)
qed



lemma top_channel_bound:
  fixes p w :: real
  assumes "0 \<le> p" "0 < w"
  shows "14 / 5 * w * ln (1 + 14 / 5 * p / w) \<le> price_p * p + price_w * w"
proof -
  have "ln (1 + 14 / 5 * p / w) \<le> ln (12 / 5) + (14 / 5 * p / w - 7 / 5) * (5 / 12)"
    using assms by (intro ln_tangent) simp
  then have "14 / 5 * w * ln (1 + 14 / 5 * p / w)
      \<le> 14 / 5 * w * (ln (12 / 5) + (14 / 5 * p / w - 7 / 5) * (5 / 12))"
    using assms by (intro mult_left_mono) simp_all
  also have "\<dots> = price_p * p + price_w * w"
    using assms by (simp add: price_p_def price_w_def field_simps)
  finally show ?thesis .
qed

lemma channel_mono:
  fixes a c p w :: real
  assumes "0 < a" "a \<le> c" "0 \<le> p" "0 < w"
  shows "a * w * ln (1 + a * p / w) \<le> c * w * ln (1 + c * p / w)"
proof -
  have le: "a * p / w \<le> c * p / w"
    using assms by (intro divide_right_mono mult_right_mono) simp_all
  have nn: "0 \<le> a * p / w" using assms by simp
  have l: "ln (1 + a * p / w) \<le> ln (1 + c * p / w)"
    using le nn by simp
  have l0: "0 \<le> ln (1 + a * p / w)" using nn by simp
  have m: "a * w \<le> c * w" using assms by simp
  have m0: "0 \<le> c * w" using assms by simp
  show ?thesis
    by (rule mult_mono [OF m l m0 l0])
qed


lemma channel_bound:
  assumes "0 < a" "a \<le> 14 / 5" "0 \<le> p" "0 \<le> w"
  shows "- reformulated a a p w \<le> price_p * p + price_w * w"
proof (cases "w = 0")
  case True
  then show ?thesis
    using assms by (simp add: reformulated_zero_bandwidth price_p_def)
next
  case False
  then have w: "0 < w" using assms by simp
  have "- reformulated a a p w = a * w * ln (1 + a * p / w)"
    using assms w by (simp add: reformulated_ln_nonneg)
  also have "\<dots> \<le> 14 / 5 * w * ln (1 + 14 / 5 * p / w)"
    using assms w by (intro channel_mono) simp_all
  also have "\<dots> \<le> price_p * p + price_w * w"
    using assms w by (intro top_channel_bound) simp_all
  finally show ?thesis .
qed


lemma top_channel_value: "- reformulated (14 / 5) (14 / 5) (1 / 2) 1 = 14 / 5 * ln (12 / 5)"
proof -
  have "- reformulated (14 / 5) (14 / 5) (1 / 2) 1 = 14 / 5 * 1 * ln (1 + 14 / 5 * (1 / 2) / 1)"
    by (subst reformulated_ln_nonneg) simp_all
  then show ?thesis by simp
qed


subsection \<open>Feasible allocations and the optimum of the worked example\<close>

lemma example_a_val_eq: "example_a_val = [2, 11 / 5, 12 / 5, 13 / 5, 14 / 5]"
  by (simp add: example_a_val_def arange_def example_n_def upt_rec)

lemma example_b_val_eq: "example_b_val = [2, 11 / 5, 12 / 5, 13 / 5, 14 / 5]"
  by (simp add: example_b_val_def arange_def example_n_def upt_rec)

lemma feasible_formulate:
  "feasible (formulate m a b Pt Wt) p w \<longleftrightarrow>
     length p = m \<and> length w = m \<and> (\<forall>x\<in>set p. 0 \<le> x) \<and> (\<forall>x\<in>set w. 0 \<le> x) \<and>
     sum_list p = Pt \<and> sum_list w = Wt"
  by (auto simp: feasible_def formulate_def Let_def assignment_def binop_def list_all_iff)

lemma attains_formulate:
  assumes "length b = length a"
  shows "attains (formulate (length a) a b Pt Wt) p w v \<longleftrightarrow>
     feasible (formulate (length a) a b Pt Wt) p w \<and>
     v = (\<Sum>i<length a. reformulated (a ! i) (b ! i) (p ! i) (w ! i))"
  using formulate_objective_value [OF assms, of p w Pt Wt]
  by (auto simp: attains_def feasible_formulate)

lemma length_five:
  "length xs = 5 \<longleftrightarrow> (\<exists>x0 x1 x2 x3 x4. xs = [x0, x1, x2, x3, x4])"
  by (auto simp: eval_nat_numeral length_Suc_conv)


lemma prices_total: "price_p * (1 / 2) + price_w * 1 = 14 / 5 * ln (12 / 5)"
  by (simp add: price_p_def price_w_def field_simps)

lemma five_channel_bound:
  assumes nn: "0 \<le> p0" "0 \<le> p1" "0 \<le> p2" "0 \<le> p3" "0 \<le> p4"
              "0 \<le> w0" "0 \<le> w1" "0 \<le> w2" "0 \<le> w3" "0 \<le> w4"
    and sp: "p0 + p1 + p2 + p3 + p4 = 1 / 2"
    and sw: "w0 + w1 + w2 + w3 + w4 = 1"
  shows "- (reformulated 2 2 p0 w0 + reformulated (11 / 5) (11 / 5) p1 w1 +
            reformulated (12 / 5) (12 / 5) p2 w2 + reformulated (13 / 5) (13 / 5) p3 w3 +
            reformulated (14 / 5) (14 / 5) p4 w4) \<le> 14 / 5 * ln (12 / 5)"
proof -
  have b0: "- reformulated 2 2 p0 w0 \<le> price_p * p0 + price_w * w0"
    using nn by (intro channel_bound) simp_all
  have b1: "- reformulated (11 / 5) (11 / 5) p1 w1 \<le> price_p * p1 + price_w * w1"
    using nn by (intro channel_bound) simp_all
  have b2: "- reformulated (12 / 5) (12 / 5) p2 w2 \<le> price_p * p2 + price_w * w2"
    using nn by (intro channel_bound) simp_all
  have b3: "- reformulated (13 / 5) (13 / 5) p3 w3 \<le> price_p * p3 + price_w * w3"
    using nn by (intro channel_bound) simp_all
  have b4: "- reformulated (14 / 5) (14 / 5) p4 w4 \<le> price_p * p4 + price_w * w4"
    using nn by (intro channel_bound) simp_all
  have "price_p * p0 + price_w * w0 + (price_p * p1 + price_w * w1) +
        (price_p * p2 + price_w * w2) + (price_p * p3 + price_w * w3) +
        (price_p * p4 + price_w * w4) =
        price_p * (p0 + p1 + p2 + p3 + p4) + price_w * (w0 + w1 + w2 + w3 + w4)"
    by (simp add: algebra_simps)
  also have "\<dots> = 14 / 5 * ln (12 / 5)"
    unfolding sp sw by (rule prices_total)
  finally show ?thesis
    using b0 b1 b2 b3 b4 by linarith
qed


lemma example_attains:
  "attains example_problem p w v \<longleftrightarrow>
     (\<exists>p0 p1 p2 p3 p4 w0 w1 w2 w3 w4.
        p = [p0, p1, p2, p3, p4] \<and> w = [w0, w1, w2, w3, w4] \<and>
        0 \<le> p0 \<and> 0 \<le> p1 \<and> 0 \<le> p2 \<and> 0 \<le> p3 \<and> 0 \<le> p4 \<and>
        0 \<le> w0 \<and> 0 \<le> w1 \<and> 0 \<le> w2 \<and> 0 \<le> w3 \<and> 0 \<le> w4 \<and>
        p0 + p1 + p2 + p3 + p4 = 1 / 2 \<and> w0 + w1 + w2 + w3 + w4 = 1 \<and>
        v = reformulated 2 2 p0 w0 + reformulated (11 / 5) (11 / 5) p1 w1 +
            reformulated (12 / 5) (12 / 5) p2 w2 + reformulated (13 / 5) (13 / 5) p3 w3 +
            reformulated (14 / 5) (14 / 5) p4 w4)"
proof -
  have len: "length example_b_val = length example_a_val" "length example_a_val = 5"
    by (simp_all add: example_a_val_eq example_b_val_eq)
  have "attains (formulate (length example_a_val) example_a_val example_b_val 0.5 1.0) p w v
      \<longleftrightarrow> feasible (formulate (length example_a_val) example_a_val example_b_val 0.5 1.0) p w \<and>
        v = (\<Sum>i<length example_a_val.
               reformulated (example_a_val ! i) (example_b_val ! i) (p ! i) (w ! i))"
    by (rule attains_formulate [OF len(1)])
  then show ?thesis
    unfolding example_problem_def example_n_def len(2) feasible_formulate length_five
    by (auto simp: example_a_val_eq example_b_val_eq eval_nat_numeral lessThan_Suc
        algebra_simps)
qed


lemma example_lower_bound:
  assumes "attains example_problem p' w' v'"
  shows "- (14 / 5 * ln (12 / 5)) \<le> v'"
proof -
  from assms obtain p0 p1 p2 p3 p4 w0 w1 w2 w3 w4 where
    nn: "0 \<le> p0" "0 \<le> p1" "0 \<le> p2" "0 \<le> p3" "0 \<le> p4"
        "0 \<le> w0" "0 \<le> w1" "0 \<le> w2" "0 \<le> w3" "0 \<le> w4"
    and sp: "p0 + p1 + p2 + p3 + p4 = 1 / 2"
    and sw: "w0 + w1 + w2 + w3 + w4 = 1"
    and v: "v' = reformulated 2 2 p0 w0 + reformulated (11 / 5) (11 / 5) p1 w1 +
            reformulated (12 / 5) (12 / 5) p2 w2 + reformulated (13 / 5) (13 / 5) p3 w3 +
            reformulated (14 / 5) (14 / 5) p4 w4"
    unfolding example_attains by (elim exE conjE)
  show ?thesis
    using five_channel_bound [OF nn sp sw] v by linarith
qed


lemma example_optimum:
  "optimum example_problem [0, 0, 0, 0, 1 / 2] [0, 0, 0, 0, 1] (- (14 / 5 * ln (12 / 5)))"
proof -
  have len: "length example_b_val = length example_a_val" "length example_a_val = 5"
    by (simp_all add: example_a_val_eq example_b_val_eq)
  have top: "reformulated (14 / 5) (14 / 5) (1 / 2) 1 = - (14 / 5 * ln (12 / 5))"
    using top_channel_value by linarith
  have "attains (formulate (length example_a_val) example_a_val example_b_val 0.5 1.0)
      [0, 0, 0, 0, 1 / 2] [0, 0, 0, 0, 1] (- (14 / 5 * ln (12 / 5))) \<longleftrightarrow>
    feasible (formulate (length example_a_val) example_a_val example_b_val 0.5 1.0)
      [0, 0, 0, 0, 1 / 2] [0, 0, 0, 0, 1] \<and>
    - (14 / 5 * ln (12 / 5)) =
      (\<Sum>i<length example_a_val. reformulated (example_a_val ! i) (example_b_val ! i)
         ([0, 0, 0, 0, 1 / 2] ! i) ([0, 0, 0, 0, 1] ! i))"
    by (rule attains_formulate [OF len(1)])
  moreover have "feasible (formulate (length example_a_val) example_a_val example_b_val 0.5 1.0)
      [0, 0, 0, 0, 1 / 2] [0, 0, 0, 0, 1]"
    by (simp add: feasible_formulate example_a_val_eq)
  moreover have "- (14 / 5 * ln (12 / 5)) =
      (\<Sum>i<length example_a_val. reformulated (example_a_val ! i) (example_b_val ! i)
         ([0, 0, 0, 0, 1 / 2] ! i) ([0, 0, 0, 0, 1] ! i))"
    unfolding len(2)
    by (simp add: example_a_val_eq example_b_val_eq eval_nat_numeral lessThan_Suc
        reformulated_zero_bandwidth top)
  ultimately have "attains (formulate (length example_a_val) example_a_val example_b_val 0.5 1.0)
      [0, 0, 0, 0, 1 / 2] [0, 0, 0, 0, 1] (- (14 / 5 * ln (12 / 5)))"
    by blast
  then have "attains example_problem [0, 0, 0, 0, 1 / 2] [0, 0, 0, 0, 1]
      (- (14 / 5 * ln (12 / 5)))"
    by (simp add: example_problem_def example_n_def len(2))
  then show ?thesis
    unfolding optimum_def using example_lower_bound by blast
qed




lemma example_solver_reports: "reports_optimum (example_solver example_problem) example_problem"
  unfolding reports_optimum_def
  using example_optimum
  by (intro exI [of _ "- (14 / 5 * ln (12 / 5))"] exI [of _ "[0, 0, 0, 0, 1]"]
        exI [of _ "[0, 0, 0, 0, 1 / 2]"] conjI)
     (simp_all add: example_solver_def)


lemma negative_total_infeasible:
  assumes "Pt < 0"
  shows "\<not> feasible (formulate m a b Pt Wt) p w"
proof
  assume "feasible (formulate m a b Pt Wt) p w"
  then have "\<forall>x\<in>set p. 0 \<le> x" and "sum_list p = Pt"
    by (simp_all add: feasible_formulate)
  then have "0 \<le> Pt"
    using sum_list_nonneg [of p] by auto
  with assms show False by simp
qed

lemma infeasible_solver_exact:
  "Pt < 0 \<Longrightarrow> exact_on infeasible_solver (formulate m a b Pt Wt)"
  using negative_total_infeasible
  by (auto simp: exact_on_def optimum_def attains_def infeasible_solver_def)

subsection \<open>The length check\<close>

text \<open>
  Claim C1. The failure path is taken exactly when \<open>a_val\<close> and \<open>b_val\<close> have
  different lengths. There the call prints its message and returns
  \<open>('failed', NaN, NaN, NaN)\<close>, whatever the other arguments are. For vectors of equal
  length, whatever their entries, nothing is printed and the solver is run.
\<close>

theorem optimal_power_failure_iff_length_mismatch:
  "(fst (optimal_power solve n a_val b_val P_tot W_tot) = [Printed failure_message]
      \<longleftrightarrow> length a_val \<noteq> length b_val) \<and>
   (length a_val \<noteq> length b_val \<longrightarrow>
      snd (optimal_power solve n a_val b_val P_tot W_tot) =
        (''failed'', FloatV NaN, FloatV NaN, FloatV NaN)) \<and>
   (length a_val = length b_val \<longrightarrow>
      \<not> list_ex is_print (fst (optimal_power solve n a_val b_val P_tot W_tot)) \<and>
      list_ex is_solve (fst (optimal_power solve n a_val b_val P_tot W_tot)))"
proof (cases "length a_val = length b_val")
  case True
  then show ?thesis by (simp add: optimal_power_match Let_def)
next
  case False
  then show ?thesis by (simp add: optimal_power_mismatch)
qed

text \<open>
  Both paths on concrete inputs: a mismatch of lengths two and one, and two vectors of
  length one with a negative and a zero entry.
\<close>

theorem optimal_power_failure_iff_length_mismatch_witness:
  "length [2, 3 :: real] \<noteq> length [- 1 :: real] \<and>
   fst (optimal_power stub_solver 7 [2, 3] [- 1] None (Some 4)) = [Printed failure_message] \<and>
   snd (optimal_power stub_solver 7 [2, 3] [- 1] None (Some 4)) =
     (''failed'', FloatV NaN, FloatV NaN, FloatV NaN) \<and>
   length [- 2 :: real] = length [0 :: real] \<and>
   \<not> list_ex is_print (fst (optimal_power stub_solver 5 [- 2] [0] None None)) \<and>
   list_ex is_solve (fst (optimal_power stub_solver 5 [- 2] [0] None None))"
  using optimal_power_failure_iff_length_mismatch [of stub_solver 7 "[2, 3]" "[- 1]" None "Some 4"]
        optimal_power_failure_iff_length_mismatch [of stub_solver 5 "[- 2]" "[0]" None None]
  by simp

subsection \<open>The reformulated rate\<close>

text \<open>
  Claim C2, as amended. For positive \<open>\<alpha>\<close>, \<open>\<beta>\<close>, \<open>P\<close>, \<open>W\<close> the expression built
  from \<open>kl_div\<close> equals the negated rate taken with the natural logarithm, that is
  \<open>ln 2\<close> times the negated base-2 rate \<open>R\<close>.
\<close>

theorem reformulated_is_negated_rate_in_nats:
  assumes "0 < \<alpha>" "0 < \<beta>" "0 < P" "0 < W"
  shows "reformulated \<alpha> \<beta> P W = - (ln 2 * rate \<alpha> \<beta> P W) \<and>
         reformulated \<alpha> \<beta> P W = - (\<alpha> * W * ln (1 + \<beta> * P / W))"
  using reformulated_ln[OF assms] by (simp add: rate_def log_def)

text \<open>The identity at \<open>\<alpha> = 2\<close>, \<open>\<beta> = 3\<close>, \<open>P = 1/2\<close>, \<open>W = 1\<close>.\<close>

theorem reformulated_is_negated_rate_in_nats_witness:
  "(0::real) < 2 \<and> (0::real) < 3 \<and> (0::real) < 1/2 \<and> (0::real) < 1 \<and>
   reformulated 2 3 (1/2) 1 = - (ln 2 * rate 2 3 (1/2) 1)"
  using reformulated_is_negated_rate_in_nats [of 2 3 "1/2" 1] by simp

text \<open>
  The identity as the notebook writes it, with the base-2 rate, fails: at
  \<open>\<alpha> = \<beta> = P = W = 1\<close> the rate is \<open>1\<close> and the expression is \<open>- ln 2\<close>.
\<close>

theorem reformulated_differs_from_negated_base2_rate:
  "\<not> (- rate 1 1 1 1 = reformulated 1 1 1 1)"
proof -
  have "ln (1/2 :: real) = - ln 2"
    by (simp add: ln_div)
  then have "reformulated 1 1 1 1 = - ln 2"
    by (simp add: reformulated_def kl_div_def)
  moreover have "rate 1 1 1 1 = 1"
    by (simp add: rate_def)
  moreover have "ln (2::real) < 1"
    by (rule ln_2_less_1)
  ultimately show ?thesis by simp
qed

subsection \<open>The constructed problem\<close>

text \<open>
  Claim C3. For coefficient vectors of equal length the call builds one problem. At any
  allocation \<open>p\<close>, \<open>w\<close> of that length its objective is the sum over the channels of
  the reformulated terms, and its constraints are four, in this order: every entry of
  \<open>p\<close> is non-negative, every entry of \<open>w\<close> is non-negative, the entries of \<open>p\<close> sum
  to \<open>P_tot\<close>, the entries of \<open>w\<close> sum to \<open>W_tot\<close>.
\<close>

theorem optimal_power_problem_structure:
  assumes "length b_val = length a_val" "length p = length a_val" "length w = length a_val"
  shows "\<exists>prob. built (fst (optimal_power solve n a_val b_val P_tot W_tot)) = [prob] \<and>
     objective_value (assignment p w) prob =
       Some (Sc (\<Sum>i<length a_val. reformulated (a_val ! i) (b_val ! i) (p ! i) (w ! i))) \<and>
     map (holds (assignment p w)) (constraints prob) =
       [\<forall>x\<in>set p. 0 \<le> x, \<forall>x\<in>set w. 0 \<le> x,
        sum_list p = or_default P_tot, sum_list w = or_default W_tot]"
  using assms formulate_objective_value[OF assms] formulate_constraints_hold[OF assms(2,3)]
  by (simp add: optimal_power_match Let_def)

text \<open>
  One channel with \<open>\<alpha> = 2\<close>, \<open>\<beta> = 3\<close>, \<open>P_tot = 0.5\<close> and the default \<open>W_tot\<close>,
  at the allocation \<open>p = [1/2]\<close>, \<open>w = [1]\<close>, which meets all four constraints.
\<close>

theorem optimal_power_problem_structure_witness:
  "length [3 :: real] = length [2 :: real] \<and>
   (\<exists>prob. built (fst (optimal_power stub_solver 1 [2] [3] (Some 0.5) None)) = [prob] \<and>
     objective_value (assignment [1/2] [1]) prob = Some (Sc (reformulated 2 3 (1/2) 1)) \<and>
     map (holds (assignment [1/2] [1])) (constraints prob) = [True, True, True, True])"
  using optimal_power_problem_structure
          [of "[3]" "[2]" "[1/2]" "[1]" stub_solver 1 "Some 0.5" None]
  by (simp add: or_default_def)

subsection \<open>The returned tuple\<close>

text \<open>
  Claim C4, as amended. When the lengths agree the call returns the status the solver
  reports, the negation of the objective value it reports (a finite \<open>v\<close> becomes
  \<open>-v\<close>, the two infinities are exchanged, NaN stays NaN), and the values the solver
  leaves in \<open>P\<close> and in \<open>W\<close>, in this order. These two are the optimal allocation
  vectors for power and bandwidth when the solver reports an optimum of the problem;
  otherwise they are whatever the solver left, \<open>None\<close> when it assigned nothing.
\<close>

theorem optimal_power_returns_solver_report:
  assumes "length a_val = length b_val"
  shows "\<exists>prob. built (fst (optimal_power solve n a_val b_val P_tot W_tot)) = [prob] \<and>
     fst (snd (optimal_power solve n a_val b_val P_tot W_tot)) = status (solve prob) \<and>
     fst (snd (snd (optimal_power solve n a_val b_val P_tot W_tot))) =
       (case opt_value (solve prob) of
          Finite v \<Rightarrow> FloatV (Finite (- v))
        | PosInf \<Rightarrow> FloatV NegInf
        | NegInf \<Rightarrow> FloatV PosInf
        | NaN \<Rightarrow> FloatV NaN) \<and>
     snd (snd (snd (optimal_power solve n a_val b_val P_tot W_tot))) =
       (var_value (solve prob) ''P'', var_value (solve prob) ''W'') \<and>
     (reports_optimum (solve prob) prob \<longrightarrow>
        (\<exists>p w v. optimum prob p w v \<and>
           snd (optimal_power solve n a_val b_val P_tot W_tot) =
             (''optimal'', FloatV (Finite (- v)),
              ArrayV (map Finite p), ArrayV (map Finite w))))"
  using assms
  by (auto simp: optimal_power_match Let_def reports_optimum_def split: pyfloat.splits)

text \<open>
  The worked example with a solver that reports its optimum: the utility is the negated
  objective value and the two vectors are the optimal allocation.
\<close>

theorem optimal_power_returns_solver_report_witness:
  "length example_a_val = length example_b_val \<and>
   reports_optimum (example_solver example_problem) example_problem \<and>
   snd (optimal_power example_solver 5 example_a_val example_b_val (Some 0.5) (Some 1.0)) =
     (''optimal'', FloatV (Finite (14 / 5 * ln (12 / 5))),
      ArrayV [Finite 0, Finite 0, Finite 0, Finite 0, Finite (1 / 2)],
      ArrayV [Finite 0, Finite 0, Finite 0, Finite 0, Finite 1])"
proof -
  have len: "length example_a_val = length example_b_val"
    by (simp add: example_a_val_eq example_b_val_eq)
  obtain prob where
    "snd (snd (snd (optimal_power example_solver 5 example_a_val example_b_val
        (Some 0.5) (Some 1.0)))) =
       (var_value (example_solver prob) ''P'', var_value (example_solver prob) ''W'')"
    "fst (snd (optimal_power example_solver 5 example_a_val example_b_val
        (Some 0.5) (Some 1.0))) = status (example_solver prob)"
    "fst (snd (snd (optimal_power example_solver 5 example_a_val example_b_val
        (Some 0.5) (Some 1.0)))) =
       (case opt_value (example_solver prob) of
          Finite v \<Rightarrow> FloatV (Finite (- v))
        | PosInf \<Rightarrow> FloatV NegInf
        | NegInf \<Rightarrow> FloatV PosInf
        | NaN \<Rightarrow> FloatV NaN)"
    using optimal_power_returns_solver_report [OF len, of example_solver 5 "Some 0.5" "Some 1.0"] by blast
  then have "snd (optimal_power example_solver 5 example_a_val example_b_val (Some 0.5) (Some 1.0)) =
     (''optimal'', FloatV (Finite (14 / 5 * ln (12 / 5))),
      ArrayV [Finite 0, Finite 0, Finite 0, Finite 0, Finite (1 / 2)],
      ArrayV [Finite 0, Finite 0, Finite 0, Finite 0, Finite 1])"
    by (simp add: example_solver_def prod_eq_iff)
  then show ?thesis
    using len example_solver_reports by simp
qed

text \<open>
  With \<open>P_tot = -1\<close> no allocation is feasible. A solver that says so is exact on this
  problem, and the call returns \<open>None\<close> in the third and fourth places, not allocation
  vectors.
\<close>

theorem optimal_power_returns_none_when_infeasible:
  "exact_on infeasible_solver (formulate 1 [2] [3] (- 1) 1.0) \<and>
   snd (optimal_power infeasible_solver 1 [2] [3] (Some (- 1)) None) =
     (''infeasible'', FloatV NegInf, NoneV, NoneV)"
  using infeasible_solver_exact [of "- 1" 1 "[2]" "[3]" "1.0"]
  by (simp add: optimal_power_match Let_def infeasible_solver_def)

subsection \<open>Effects of a call\<close>

text \<open>
  Claim C5, as amended. When the lengths agree the call prints nothing: it creates the
  two variables and the two parameters, builds the problem and solves it, and does
  nothing else. When the lengths differ its one effect is to print the line
  \<open>alpha and beta vectors must have same length!\<close>.
\<close>

theorem optimal_power_effects:
  "(length a_val = length b_val \<longrightarrow>
      \<not> list_ex is_print (fst (optimal_power solve n a_val b_val P_tot W_tot)) \<and>
      (\<exists>prob. fst (optimal_power solve n a_val b_val P_tot W_tot) =
         [Created (Variable ''P'' (length a_val)), Created (Variable ''W'' (length a_val)),
          Created (Parameter ''alpha'' (length a_val) None),
          Created (Parameter ''beta'' (length a_val) None),
          Built prob, Solved prob])) \<and>
   (length a_val \<noteq> length b_val \<longrightarrow>
      fst (optimal_power solve n a_val b_val P_tot W_tot) = [Printed failure_message])"
proof (cases "length a_val = length b_val")
  case True
  then show ?thesis by (simp add: optimal_power_match Let_def)
next
  case False
  then show ?thesis by (simp add: optimal_power_mismatch)
qed

text \<open>Both paths on concrete inputs.\<close>

theorem optimal_power_effects_witness:
  "length [2 :: real] = length [3 :: real] \<and>
   \<not> list_ex is_print (fst (optimal_power stub_solver 1 [2] [3] None None)) \<and>
   length [2 :: real] \<noteq> length [3, 4 :: real] \<and>
   fst (optimal_power stub_solver 1 [2] [3, 4] None None) = [Printed failure_message]"
  using optimal_power_effects [of "[2]" "[3]" stub_solver 1 None None]
        optimal_power_effects [of "[2]" "[3, 4]" stub_solver 1 None None]
  by simp

text \<open>
  A call that does print: \<open>a_val\<close> of length two and \<open>b_val\<close> of length one.
\<close>

theorem optimal_power_prints_on_mismatch:
  "list_ex is_print (fst (optimal_power stub_solver 2 [1, 2] [1] None None))"
  by (simp add: optimal_power_mismatch)

subsection \<open>The solver's status\<close>

text \<open>
  Claim C6. When the lengths agree the solver is run once, on the problem the call has
  built, and the status returned is the status string of that run, unchanged.
\<close>

theorem optimal_power_status_passthrough:
  assumes "length a_val = length b_val"
  shows "\<exists>prob. built (fst (optimal_power solve n a_val b_val P_tot W_tot)) = [prob] \<and>
     filter is_solve (fst (optimal_power solve n a_val b_val P_tot W_tot)) = [Solved prob] \<and>
     fst (snd (optimal_power solve n a_val b_val P_tot W_tot)) = status (solve prob)"
  using assms by (simp add: optimal_power_match Let_def)

text \<open>A solver that reports \<open>infeasible\<close>: the call returns \<open>infeasible\<close>.\<close>

theorem optimal_power_status_passthrough_witness:
  "length [2 :: real] = length [3 :: real] \<and>
   fst (snd (optimal_power infeasible_solver 1 [2] [3] None None)) = ''infeasible''"
  using optimal_power_status_passthrough [of "[2]" "[3]" infeasible_solver 1 None None]
  by (clarsimp simp: infeasible_solver_def)

subsection \<open>Default arguments\<close>

text \<open>
  Claim C7. \<open>P_tot\<close> and \<open>W_tot\<close> default to \<open>1.0\<close>: a call that leaves them out
  gives what the call with both set to \<open>1.0\<close> gives, and so does a call that leaves out
  \<open>W_tot\<close> alone.
\<close>

theorem optimal_power_defaults:
  "optimal_power solve n a_val b_val None None =
     optimal_power solve n a_val b_val (Some 1.0) (Some 1.0) \<and>
   optimal_power solve n a_val b_val (Some P_tot) None =
     optimal_power solve n a_val b_val (Some P_tot) (Some 1.0)"
  by (simp add: optimal_power_def or_default_def)

subsection \<open>The argument n\<close>

text \<open>
  Claim C9. The argument \<open>n\<close> is ignored: two calls that differ in \<open>n\<close> alone have
  the same effects, build the same problem and return the same tuple. When the lengths
  agree, every variable and parameter of the problem has shape \<open>len(a_val)\<close>.
\<close>

theorem optimal_power_ignores_n:
  "optimal_power solve n a_val b_val P_tot W_tot =
     optimal_power solve n' a_val b_val P_tot W_tot \<and>
   (length a_val = length b_val \<longrightarrow>
      map problem_shapes (built (fst (optimal_power solve n a_val b_val P_tot W_tot))) =
        [{length a_val}])"
  by (auto simp add: optimal_power_def optimal_power_body_def Let_def problem_shapes_def
      formulate_def rate_expr_def)

text \<open>Vectors of length two, with \<open>n = 5\<close> and with \<open>n = -1\<close>.\<close>

theorem optimal_power_ignores_n_witness:
  "optimal_power stub_solver 5 [2, 3] [4, 5] None None =
     optimal_power stub_solver (- 1) [2, 3] [4, 5] None None \<and>
   length [2, 3 :: real] = length [4, 5 :: real] \<and>
   map problem_shapes (built (fst (optimal_power stub_solver 5 [2, 3] [4, 5] None None))) = [{2}]"
proof -
  have len: "length [2, 3 :: real] = length [4, 5 :: real]"
    and two: "length [2, 3 :: real] = 2" by simp_all
  show ?thesis
    using optimal_power_ignores_n [of stub_solver 5 "[2, 3]" "[4, 5]" None None "- 1"] len
    unfolding two by blast
qed

subsection \<open>The early return\<close>

text \<open>
  Claim C10. When the lengths differ the call returns after printing its message: it
  creates no library object, builds no problem and does not run the solver. The three
  placeholders it returns are scalar NaN values, not arrays.
\<close>

theorem optimal_power_mismatch_returns_early:
  assumes "length a_val \<noteq> length b_val"
  shows "fst (optimal_power solve n a_val b_val P_tot W_tot) = [Printed failure_message] \<and>
     built (fst (optimal_power solve n a_val b_val P_tot W_tot)) = [] \<and>
     \<not> list_ex is_solve (fst (optimal_power solve n a_val b_val P_tot W_tot)) \<and>
     (\<exists>u p w. snd (optimal_power solve n a_val b_val P_tot W_tot) = (''failed'', u, p, w) \<and>
        u = FloatV NaN \<and> p = FloatV NaN \<and> w = FloatV NaN \<and>
        is_scalar u \<and> is_scalar p \<and> is_scalar w)"
  using assms by (simp add: optimal_power_mismatch)

text \<open>
  Vectors of lengths three and one: the tuple returned does not hold arrays of three
  NaN values.
\<close>

theorem optimal_power_mismatch_returns_early_witness:
  "length [2, 3, 4 :: real] \<noteq> length [3 :: real] \<and>
   fst (optimal_power stub_solver 3 [2, 3, 4] [3] None None) = [Printed failure_message] \<and>
   snd (optimal_power stub_solver 3 [2, 3, 4] [3] None None) \<noteq>
     (''failed'', ArrayV [NaN, NaN, NaN], ArrayV [NaN, NaN, NaN], ArrayV [NaN, NaN, NaN])"
  using optimal_power_mismatch_returns_early [of "[2, 3, 4]" "[3]" stub_solver 3 None None]
  by auto

subsection \<open>The worked example\<close>



end
